theory Spec2Isabelle
  imports Main "HOL-Library.Word"
begin

section \<open>GitHub Trending Scraper (main.js)\<close>

text \<open>
  The program requests the trending page of one language, selects the repository rows of
  the parsed page and prints one entry per row. The functions below follow
  \<^verbatim>\<open>fetchTrendingRepos\<close>, \<^verbatim>\<open>displayRepos\<close> and \<^verbatim>\<open>main\<close> of main.js.
\<close>

subsection \<open>JavaScript strings\<close>

text \<open>
  A JavaScript string is a sequence of UTF-16 code units. \<open>js\<close> writes an ASCII
  literal; code units beyond ASCII are spliced in by their number.
\<close>

type_synonym jsstring = "16 word list"

definition js :: "string \<Rightarrow> jsstring" where
  "js s = map of_char s"

text \<open>
  The class \<^verbatim>\<open>\s\<close> of a regular expression without the u flag, which is also the
  set that \<^verbatim>\<open>String.prototype.trim\<close> strips: WhiteSpace and LineTerminator of
  ECMAScript (TAB, LF, VT, FF, CR, SP, NBSP, U+1680, U+2000 to U+200A, U+2028, U+2029,
  U+202F, U+205F, U+3000, U+FEFF).
\<close>

definition is_ws :: "16 word \<Rightarrow> bool" where
  "is_ws c =
     (c \<in> {0x9, 0xA, 0xB, 0xC, 0xD, 0x20, 0xA0, 0x1680, 0x2028, 0x2029, 0x202F, 0x205F,
            0x3000, 0xFEFF}
      \<or> (0x2000 \<le> c \<and> c \<le> 0x200A))"

text \<open>\<^verbatim>\<open>s.replace(/\s/g, '')\<close>: one scan from the left, every match replaced by nothing.\<close>

fun replace_ws :: "jsstring \<Rightarrow> jsstring" where
  "replace_ws [] = []"
| "replace_ws (c # cs) = (if is_ws c then replace_ws cs else c # replace_ws cs)"

text \<open>\<^verbatim>\<open>s.trim()\<close>: the white space at the start and at the end is dropped.\<close>

definition trim :: "jsstring \<Rightarrow> jsstring" where
  "trim s = rev (dropWhile is_ws (rev (dropWhile is_ws s)))"

text \<open>A template literal renders \<^verbatim>\<open>undefined\<close> by its name.\<close>

definition template_str :: "jsstring option \<Rightarrow> jsstring" where
  "template_str v = (case v of None \<Rightarrow> js ''undefined'' | Some s \<Rightarrow> s)"

subsection \<open>The parsed document\<close>

text \<open>
  The tree that \<^verbatim>\<open>cheerio.load\<close> builds: elements with a tag name, attributes and
  children, text nodes and comments. The attribute list is read with \<open>map_of\<close>, so
  the first occurrence of a name counts. A document is the list of the root's children.
\<close>

datatype node =
    Element jsstring "(jsstring \<times> jsstring) list" "node list"
  | TextNode jsstring
  | Comment jsstring

fun textContent :: "node \<Rightarrow> jsstring" where
  "textContent (Element t as cs) = concat (map textContent cs)"
| "textContent (TextNode d) = d"
| "textContent (Comment d) = []"

text \<open>\<^verbatim>\<open>.text()\<close> of a selection: the text of every selected element, concatenated.\<close>

definition text_of :: "node list \<Rightarrow> jsstring" where
  "text_of els = concat (map textContent els)"

fun attr_of :: "node \<Rightarrow> jsstring \<Rightarrow> jsstring option" where
  "attr_of (Element t as cs) k = map_of as k"
| "attr_of (TextNode d) k = None"
| "attr_of (Comment d) k = None"

text \<open>
  \<^verbatim>\<open>.attr(name)\<close> of a selection reads the first selected element, and is
  \<^verbatim>\<open>undefined\<close> (here \<open>None\<close>) for an empty selection or a missing attribute.
\<close>

definition attr :: "node list \<Rightarrow> jsstring \<Rightarrow> jsstring option" where
  "attr els k = (case els of [] \<Rightarrow> None | e # _ \<Rightarrow> attr_of e k)"

text \<open>
  The proper descendants of a node in document order (preorder), each paired with its
  parent, which the child combinator of a selector needs.
\<close>

fun descendants :: "node \<Rightarrow> (node \<times> node) list" where
  "descendants (Element t as cs) =
     concat (map (\<lambda>c. (Element t as cs, c) # descendants c) cs)"
| "descendants (TextNode d) = []"
| "descendants (Comment d) = []"

definition document_nodes :: "node list \<Rightarrow> node list" where
  "document_nodes doc = concat (map (\<lambda>c. c # map snd (descendants c)) doc)"

subsection \<open>Selectors\<close>

fun has_tag :: "jsstring \<Rightarrow> node \<Rightarrow> bool" where
  "has_tag t (Element t' as cs) = (t' = t)"
| "has_tag t (TextNode d) = False"
| "has_tag t (Comment d) = False"

text \<open>The white-space separated tokens of an attribute value.\<close>

fun tokens_from :: "jsstring \<Rightarrow> jsstring \<Rightarrow> jsstring list" where
  "tokens_from cur [] = (if cur = [] then [] else [cur])"
| "tokens_from cur (c # cs) =
     (if is_ws c then (if cur = [] then [] else [cur]) @ tokens_from [] cs
      else tokens_from (cur @ [c]) cs)"

definition has_class :: "jsstring \<Rightarrow> node \<Rightarrow> bool" where
  "has_class c n =
     (case attr_of n (js ''class'') of
        None \<Rightarrow> False
      | Some v \<Rightarrow> c \<in> set (tokens_from [] v))"

definition ends_with :: "jsstring \<Rightarrow> jsstring \<Rightarrow> bool" where
  "ends_with suffix s =
     (length suffix \<le> length s \<and> drop (length s - length suffix) s = suffix)"

text \<open>\<^verbatim>\<open>$('article.Box-row')\<close>: every matching element of the document, in document order.\<close>

definition select_rows :: "node list \<Rightarrow> node list" where
  "select_rows doc =
     filter (\<lambda>n. has_tag (js ''article'') n \<and> has_class (js ''Box-row'') n)
       (document_nodes doc)"

text \<open>\<^verbatim>\<open>repoElement.find('h2 > a')\<close>: the a elements below the row whose parent is an h2.\<close>

definition find_h2_a :: "node \<Rightarrow> node list" where
  "find_h2_a element =
     map snd (filter (\<lambda>(p, c). has_tag (js ''h2'') p \<and> has_tag (js ''a'') c)
       (descendants element))"

text \<open>\<^verbatim>\<open>repoElement.find('p.col-9')\<close>.\<close>

definition find_p_col9 :: "node \<Rightarrow> node list" where
  "find_p_col9 element =
     filter (\<lambda>n. has_tag (js ''p'') n \<and> has_class (js ''col-9'') n)
       (map snd (descendants element))"

text \<open>\<^verbatim>\<open>repoElement.find('a[href$="/stargazers"]')\<close>.\<close>

definition find_stargazers :: "node \<Rightarrow> node list" where
  "find_stargazers element =
     filter (\<lambda>n. has_tag (js ''a'') n \<and>
                 (case attr_of n (js ''href'') of
                    None \<Rightarrow> False
                  | Some v \<Rightarrow> ends_with (js ''/stargazers'') v))
       (map snd (descendants element))"

subsection \<open>The extraction loop of fetchTrendingRepos\<close>

record repo =
  name :: jsstring
  url :: jsstring
  description :: jsstring
  stars :: jsstring

definition origin :: jsstring where
  "origin = js ''https://github.com''"

definition titleElement :: "node \<Rightarrow> node list" where
  "titleElement element = find_h2_a element"

definition repoName :: "node \<Rightarrow> jsstring" where
  "repoName element = replace_ws (text_of (titleElement element))"

definition repoUrl :: "node \<Rightarrow> jsstring" where
  "repoUrl element = origin @ template_str (attr (titleElement element) (js ''href''))"

definition description_of :: "node \<Rightarrow> jsstring" where
  "description_of element = trim (text_of (find_p_col9 element))"

definition stars_of :: "node \<Rightarrow> jsstring" where
  "stars_of element = trim (text_of (find_stargazers element))"

text \<open>
  The callback of \<^verbatim>\<open>.each\<close>, with the array \<^verbatim>\<open>repos\<close> it pushes to passed
  through: a row is pushed only when its name is a non-empty string.
\<close>

definition each_callback :: "repo list \<Rightarrow> node \<Rightarrow> repo list" where
  "each_callback repos element =
     (if repoName element \<noteq> []
      then repos @ [\<lparr>name = repoName element, url = repoUrl element,
                      description = description_of element, stars = stars_of element\<rparr>]
      else repos)"

text \<open>Lines 48 to 75: \<^verbatim>\<open>repos\<close> starts empty and the callback runs on every row in turn.\<close>

definition extract_repos :: "node list \<Rightarrow> repo list" where
  "extract_repos doc = foldl each_callback [] (select_rows doc)"

text \<open>The object literal that the callback pushes for a row.\<close>

abbreviation row_record :: "node \<Rightarrow> repo" where
  "row_record element \<equiv>
     \<lparr>name = repoName element, url = repoUrl element,
      description = description_of element, stars = stars_of element\<rparr>"

subsection \<open>The outside world\<close>

text \<open>
  What the program does to the outside is kept as a trace of events: a line written by
  \<^verbatim>\<open>console.log\<close>, a line written by \<^verbatim>\<open>console.error\<close>, a GET request.
\<close>

datatype event = Stdout jsstring | Stderr jsstring | HttpGet jsstring

text \<open>
  The \<^verbatim>\<open>data\<close> of a response: a string, or any other value (axios hands over
  \<^verbatim>\<open>null\<close> or an object when the body was JSON).
\<close>

datatype payload = StringData jsstring | OtherData

text \<open>
  The promise of \<^verbatim>\<open>axios.get\<close> either resolves with the data of the response or
  rejects with an error, whose \<^verbatim>\<open>response.status\<close> is present when the server
  answered, and whose \<^verbatim>\<open>message\<close> is a string.
\<close>

datatype response = Resolved payload | Rejected "nat option" jsstring

text \<open>
  The library functions that main.js calls and does not define are parameters:
  \<^verbatim>\<open>String.prototype.toLowerCase\<close>, the answer of the network to a GET of a URL, and
  the HTML parser behind \<^verbatim>\<open>cheerio.load\<close>, which either builds a tree or throws
  an error (\<open>Inl\<close> its message), as it does for data that is no markup at all.
\<close>

record env =
  toLowerCase :: "jsstring \<Rightarrow> jsstring"
  axios_get :: "jsstring \<Rightarrow> response"
  cheerio_load :: "payload \<Rightarrow> jsstring + node list"

text \<open>How a run ends: the script runs to its end, or \<^verbatim>\<open>process.exit(code)\<close> stops it.\<close>

datatype ending = RanToEnd | ProcessExit nat

subsection \<open>Messages\<close>

definition colors_reset :: jsstring where
  "colors_reset = [0x1B] @ js ''[0m''"

definition colors_bright :: jsstring where
  "colors_bright = [0x1B] @ js ''[1m''"

definition colors_cyan :: jsstring where
  "colors_cyan = [0x1B] @ js ''[36m''"

definition colors_yellow :: jsstring where
  "colors_yellow = [0x1B] @ js ''[33m''"

definition colors_green :: jsstring where
  "colors_green = [0x1B] @ js ''[32m''"

text \<open>A non-negative integer in a template literal: its decimal digits.\<close>

fun decimal :: "nat \<Rightarrow> jsstring" where
  "decimal n =
     (if n < 10 then [of_nat (48 + n)]
      else decimal (n div 10) @ [of_nat (48 + n mod 10)])"

declare decimal.simps [simp del]

definition trending_url :: "jsstring \<Rightarrow> jsstring" where
  "trending_url language = js ''https://github.com/trending/'' @ language"

definition searching_msg :: "jsstring \<Rightarrow> jsstring" where
  "searching_msg language =
     js ''Buscando reposit'' @ [0xF3] @ js ''rios em alta para '' @ [0x27] @ language
       @ [0x27] @ js ''...''"

definition not_found_msg :: "jsstring \<Rightarrow> jsstring" where
  "not_found_msg language =
     js ''Erro: A linguagem '' @ [0x22] @ language @ [0x22] @ js '' n'' @ [0xE3]
       @ js ''o foi encontrada no GitHub Trending.''"

text \<open>\<^verbatim>\<open>console.error\<close> with two strings writes them with one space between.\<close>

definition fetch_failed_msg :: "jsstring \<Rightarrow> jsstring" where
  "fetch_failed_msg message =
     js ''Erro ao buscar a p'' @ [0xE1] @ js ''gina:'' @ js '' '' @ message"

definition nothing_found_msg :: jsstring where
  "nothing_found_msg = js ''Nenhum reposit'' @ [0xF3] @ js ''rio encontrado.''"

definition usage_error_msg :: jsstring where
  "usage_error_msg = js ''Erro: Por favor, especifique uma linguagem.''"

definition usage_hint_msg :: jsstring where
  "usage_hint_msg = js ''Uso: node main.js <linguagem>''"

definition header_msg :: "nat \<Rightarrow> jsstring" where
  "header_msg n =
     [0xA] @ js ''--- Top '' @ decimal n @ js '' Reposit'' @ [0xF3]
       @ js ''rios em Alta ---'' @ [0xA]"

subsection \<open>fetchTrendingRepos\<close>

text \<open>
  The \<^verbatim>\<open>catch\<close> block (lines 77 to 84), for an error with the given
  \<^verbatim>\<open>response.status\<close> (absent for an error that is no HTTP answer) and message: one
  line on the error stream, and \<^verbatim>\<open>null\<close> returned.
\<close>

definition catch_block ::
  "jsstring \<Rightarrow> nat option \<Rightarrow> jsstring \<Rightarrow> event list \<times> repo list option" where
  "catch_block language status message =
     ([Stderr (if status = Some 404 then not_found_msg language
               else fetch_failed_msg message)],
      None)"

text \<open>
  The \<^verbatim>\<open>try\<close> block holds the request, \<^verbatim>\<open>cheerio.load\<close> and the loop, so a
  rejected request and an error thrown by the parser both reach the \<^verbatim>\<open>catch\<close>
  block; the error of the parser carries no \<^verbatim>\<open>response\<close>.
\<close>

definition fetchTrendingRepos :: "env \<Rightarrow> jsstring \<Rightarrow> event list \<times> repo list option" where
  "fetchTrendingRepos e language =
     (let started = [Stdout (searching_msg language), HttpGet (trending_url language)]
      in case axios_get e (trending_url language) of
           Resolved data \<Rightarrow>
             (case cheerio_load e data of
                Inr doc \<Rightarrow> (started, Some (extract_repos doc))
              | Inl message \<Rightarrow>
                  (started @ fst (catch_block language None message),
                   snd (catch_block language None message)))
         | Rejected status message \<Rightarrow>
             (started @ fst (catch_block language status message),
              snd (catch_block language status message)))"

subsection \<open>displayRepos\<close>

text \<open>The four lines printed for the repository at position \<open>index\<close>.\<close>

definition repo_lines :: "nat \<Rightarrow> repo \<Rightarrow> event list" where
  "repo_lines index r =
     [Stdout (colors_bright @ decimal (index + 1) @ js ''. '' @ colors_cyan @ name r
                @ colors_reset),
      Stdout (js ''   '' @ colors_yellow @ [0x2605] @ js '' '' @ stars r @ js '' estrelas''
                @ colors_reset),
      Stdout (js ''   '' @
                (if description r \<noteq> [] then description r
                 else js ''Sem descri'' @ [0xE7, 0xE3] @ js ''o.'')),
      Stdout (js ''   '' @ colors_green @ url r @ colors_reset @ [0xA])]"

text \<open>The argument may be \<^verbatim>\<open>null\<close> (here \<open>None\<close>), which the first test catches.\<close>

definition displayRepos :: "repo list option \<Rightarrow> event list" where
  "displayRepos repos =
     (case repos of
        None \<Rightarrow> [Stdout nothing_found_msg]
      | Some rs \<Rightarrow>
          if length rs = 0 then [Stdout nothing_found_msg]
          else Stdout (header_msg (length rs))
                 # concat (map (\<lambda>(index, r). repo_lines index r) (enumerate 0 rs)))"

subsection \<open>main\<close>

text \<open>
  \<^verbatim>\<open>process.argv[2]\<close> is \<^verbatim>\<open>undefined\<close> (here \<open>None\<close>) when no argument was
  given; the test \<^verbatim>\<open>!language\<close> also holds for the empty string.
\<close>

definition usage_exit :: "event list \<times> ending" where
  "usage_exit = ([Stderr usage_error_msg, Stdout usage_hint_msg], ProcessExit 1)"

definition main :: "env \<Rightarrow> jsstring option \<Rightarrow> event list \<times> ending" where
  "main e argv2 =
     (case argv2 of
        None \<Rightarrow> usage_exit
      | Some language \<Rightarrow>
          if language = [] then usage_exit
          else
            (case fetchTrendingRepos e (toLowerCase e language) of
               (events, None) \<Rightarrow> (events, RanToEnd)
             | (events, Some repos) \<Rightarrow> (events @ displayRepos (Some repos), RanToEnd)))"

subsection \<open>Sample rows and documents\<close>

definition sample_row :: node where
  "sample_row =
     Element (js ''article'') [(js ''class'', js ''Box-row'')]
       [Element (js ''h2'') []
          [Element (js ''a'') [(js ''href'', js ''/foo/bar'')] [TextNode (js '' foo / bar '')]],
        Element (js ''p'') [(js ''class'', js ''col-9 my-1'')]
          [TextNode (js ''  A  nice repo  '')],
        Element (js ''div'') []
          [Element (js ''a'') [(js ''href'', js ''/foo/bar/stargazers'')]
             [TextNode (js '' 1,234 '')]]]"

definition second_row :: node where
  "second_row =
     Element (js ''article'') [(js ''class'', js ''Box-row'')]
       [Element (js ''h2'') []
          [Element (js ''a'') [(js ''href'', js ''/x/y'')] [TextNode (js ''x / y'')]]]"

text \<open>A row without any title link, and a row whose title link holds white space only.\<close>

definition untitled_row :: node where
  "untitled_row =
     Element (js ''article'') [(js ''class'', js ''Box-row'')]
       [Element (js ''p'') [(js ''class'', js ''col-9'')] [TextNode (js ''no title here'')]]"

definition blank_title_row :: node where
  "blank_title_row =
     Element (js ''article'') [(js ''class'', js ''Box-row'')]
       [Element (js ''h2'') []
          [Element (js ''a'') [(js ''href'', js ''/a/b'')] [TextNode [0x20, 0xA, 0x9]]]]"

text \<open>Title links with an empty href and with no href attribute.\<close>

definition empty_href_row :: node where
  "empty_href_row =
     Element (js ''article'') [(js ''class'', js ''Box-row'')]
       [Element (js ''h2'') []
          [Element (js ''a'') [(js ''href'', [])] [TextNode (js ''foo'')]]]"

definition no_href_row :: node where
  "no_href_row =
     Element (js ''article'') [(js ''class'', js ''Box-row'')]
       [Element (js ''h2'') []
          [Element (js ''a'') [(js ''id'', js ''t'')] [TextNode (js ''foo'')]]]"

definition two_row_doc :: "node list" where
  "two_row_doc =
     [Element (js ''html'') []
        [Element (js ''body'') []
           [TextNode (js ''Trending''), sample_row, Comment (js ''sep''), second_row]]]"

definition no_href_doc :: "node list" where
  "no_href_doc =
     [Element (js ''body'') [] [no_href_row, sample_row]]"

definition mixed_doc :: "node list" where
  "mixed_doc =
     [Element (js ''body'') [] [untitled_row, sample_row, blank_title_row]]"

text \<open>
  Sample surroundings: the network answers every request with one fixed outcome and the
  parser has one fixed outcome, a tree or a thrown error.
\<close>

definition sample_env :: "response \<Rightarrow> jsstring + node list \<Rightarrow> env" where
  "sample_env r parsed =
     \<lparr>toLowerCase = (\<lambda>s. s), axios_get = (\<lambda>u. r), cheerio_load = (\<lambda>d. parsed)\<rparr>"

section \<open>Properties\<close>

lemmas sample_eval =
  select_rows_def document_nodes_def each_callback_def
  repoName_def repoUrl_def description_of_def stars_of_def titleElement_def find_h2_a_def
  find_p_col9_def find_stargazers_def has_class_def ends_with_def text_of_def attr_def
  template_str_def trim_def origin_def js_def is_ws_def

lemmas sample_rows =
  sample_row_def second_row_def untitled_row_def blank_title_row_def empty_href_row_def
  no_href_row_def

lemma replace_ws_filter: "replace_ws s = filter (\<lambda>c. \<not> is_ws c) s"
  by (induction s) simp_all

lemma replace_ws_text_of:
  "replace_ws (text_of els) = concat (map (\<lambda>a. replace_ws (textContent a)) els)"
  by (induction els) (simp_all add: text_of_def replace_ws_filter)

lemma repoName_empty_iff:
  "repoName row = [] \<longleftrightarrow> (\<forall>a \<in> set (titleElement row). replace_ws (textContent a) = [])"
  by (simp add: repoName_def replace_ws_text_of)

lemma foldl_each_callback:
  "foldl each_callback repos rows =
     repos @ map row_record (filter (\<lambda>row. repoName row \<noteq> []) rows)"
  by (induction rows arbitrary: repos) (simp_all add: each_callback_def)

lemma extract_repos_eq:
  "extract_repos doc = map row_record (filter (\<lambda>row. repoName row \<noteq> []) (select_rows doc))"
  by (simp add: extract_repos_def foldl_each_callback)

subsection \<open>The extraction\<close>

text \<open>
  Claim C1. When the document holds \<open>N\<close> rows (elements matching article.Box-row) and
  every row has a title link whose text is non-empty once its white space is removed,
  the extraction returns exactly \<open>N\<close> records, the i-th record built from the i-th row
  in document order.
\<close>

theorem extract_repos_all_rows_in_order:
  assumes "length (select_rows doc) = N"
    and "\<forall>row \<in> set (select_rows doc).
           \<exists>a \<in> set (titleElement row). replace_ws (textContent a) \<noteq> []"
  shows "length (extract_repos doc) = N \<and> extract_repos doc = map row_record (select_rows doc)"
proof -
  have "filter (\<lambda>row. repoName row \<noteq> []) (select_rows doc) = select_rows doc"
    using assms(2) by (simp add: repoName_empty_iff)
  then have "extract_repos doc = map row_record (select_rows doc)"
    by (simp add: extract_repos_eq)
  with assms(1) show ?thesis by simp
qed

theorem extract_repos_all_rows_in_order_witness:
  "select_rows two_row_doc = [sample_row, second_row] \<and>
   map name (extract_repos two_row_doc) = [js ''foo/bar'', js ''x/y'']"
proof -
  have rows: "select_rows two_row_doc = [sample_row, second_row]"
    by (simp add: two_row_doc_def sample_rows sample_eval)
  have len: "length (select_rows two_row_doc) = 2"
    by (simp add: rows)
  have titled: "\<forall>row \<in> set (select_rows two_row_doc).
      \<exists>a \<in> set (titleElement row). replace_ws (textContent a) \<noteq> []"
    by (simp add: rows) (simp add: sample_rows sample_eval)
  have names: "map name (map row_record [sample_row, second_row]) = [js ''foo/bar'', js ''x/y'']"
    by (simp add: sample_rows sample_eval)
  from extract_repos_all_rows_in_order [OF len titled] rows names show ?thesis by simp
qed

lemma no_title_no_name: "titleElement row = [] \<Longrightarrow> repoName row = []"
  by (simp add: repoName_def text_of_def)

lemma replace_ws_idem: "replace_ws (replace_ws s) = replace_ws s"
  by (simp add: replace_ws_filter)

text \<open>
  Claim C2. Every emitted record has a non-empty name that contains no white space any
  more; a row whose title link is absent or whose name is empty leaves the array as it
  was, so the output is shorter than the list of rows by exactly the number of such rows.
  The callback has no failing branch.
\<close>

theorem emitted_name_nonempty:
  "(\<forall>r \<in> set (extract_repos doc). name r \<noteq> [] \<and> replace_ws (name r) = name r)
   \<and> (titleElement row = [] \<or> repoName row = [] \<longrightarrow> each_callback repos row = repos)
   \<and> length (extract_repos doc)
       + length (filter (\<lambda>row. titleElement row = [] \<or> repoName row = []) (select_rows doc))
     = length (select_rows doc)"
proof (intro conjI)
  show "\<forall>r \<in> set (extract_repos doc). name r \<noteq> [] \<and> replace_ws (name r) = name r"
    by (auto simp: extract_repos_eq repoName_def replace_ws_idem)
  show "titleElement row = [] \<or> repoName row = [] \<longrightarrow> each_callback repos row = repos"
    using no_title_no_name [of row] by (auto simp: each_callback_def)
  have "(\<lambda>row. titleElement row = [] \<or> repoName row = []) = (\<lambda>row. \<not> repoName row \<noteq> [])"
    using no_title_no_name by auto
  then show "length (extract_repos doc)
       + length (filter (\<lambda>row. titleElement row = [] \<or> repoName row = []) (select_rows doc))
     = length (select_rows doc)"
    using sum_length_filter_compl [of "\<lambda>row. repoName row \<noteq> []" "select_rows doc"]
    by (simp add: extract_repos_eq)
qed

theorem emitted_name_nonempty_witness:
  "select_rows mixed_doc = [untitled_row, sample_row, blank_title_row]
   \<and> map name (extract_repos mixed_doc) = [js ''foo/bar'']
   \<and> titleElement untitled_row = []
   \<and> each_callback [] untitled_row = []"
proof -
  have rows: "select_rows mixed_doc = [untitled_row, sample_row, blank_title_row]"
    by (simp add: mixed_doc_def sample_rows sample_eval)
  have untitled: "titleElement untitled_row = []"
    by (simp add: sample_rows sample_eval)
  have names: "map name (extract_repos mixed_doc) = [js ''foo/bar'']"
    by (simp add: extract_repos_def rows) (simp add: sample_rows sample_eval)
  from emitted_name_nonempty [of mixed_doc untitled_row "[]"] untitled rows names show ?thesis
    by simp
qed

lemma strip_example: "replace_ws (js '' foo / bar '') = js ''foo/bar''"
  by (simp add: js_def is_ws_def)

text \<open>
  Claim C3. The name of a row is the text of its title link with every white-space
  character removed, wherever it stands: the title text " foo / bar " gives "foo/bar".
\<close>

theorem repoName_strips_all_whitespace:
  "repoName row = filter (\<lambda>c. \<not> is_ws c) (text_of (titleElement row))
   \<and> (\<forall>c \<in> set (repoName row). \<not> is_ws c)
   \<and> (text_of (titleElement row) = js '' foo / bar '' \<longrightarrow> repoName row = js ''foo/bar'')"
proof (intro conjI impI)
  show "repoName row = filter (\<lambda>c. \<not> is_ws c) (text_of (titleElement row))"
    by (simp add: repoName_def replace_ws_filter)
  show "\<forall>c \<in> set (repoName row). \<not> is_ws c"
    by (simp add: repoName_def replace_ws_filter)
  assume "text_of (titleElement row) = js '' foo / bar ''"
  then show "repoName row = js ''foo/bar''"
    by (simp only: repoName_def strip_example)
qed

theorem repoName_strips_all_whitespace_witness:
  "text_of (titleElement sample_row) = js '' foo / bar '' \<and> repoName sample_row = js ''foo/bar''"
proof -
  have t: "text_of (titleElement sample_row) = js '' foo / bar ''"
    by (simp add: sample_rows titleElement_def find_h2_a_def text_of_def js_def)
  from repoName_strips_all_whitespace [of sample_row] have "text_of (titleElement sample_row) = js '' foo / bar '' \<longrightarrow>
      repoName sample_row = js ''foo/bar''"
    by (elim conjE)
  with t show ?thesis by (intro conjI) (assumption, elim impE, assumption+)
qed

lemma rev_dropWhile_takeWhile:
  "rev (dropWhile P xs) @ rev (takeWhile P xs) = rev xs"
  by (metis rev_append takeWhile_dropWhile_id)

lemma trim_split:
  "\<exists>pre post. s = pre @ trim s @ post \<and> (\<forall>c \<in> set pre. is_ws c) \<and> (\<forall>c \<in> set post. is_ws c)"
proof -
  define t where "t = dropWhile is_ws s"
  have s: "s = takeWhile is_ws s @ t"
    by (simp add: t_def)
  have t: "t = trim s @ rev (takeWhile is_ws (rev t))"
    using rev_dropWhile_takeWhile [of is_ws "rev t"] by (simp add: trim_def t_def)
  have pre: "\<forall>c \<in> set (takeWhile is_ws s). is_ws c"
    by (auto dest: set_takeWhileD)
  have post: "\<forall>c \<in> set (rev (takeWhile is_ws (rev t))). is_ws c"
    by (auto dest: set_takeWhileD)
  from s t have "s = takeWhile is_ws s @ trim s @ rev (takeWhile is_ws (rev t))"
    by simp
  with pre post show ?thesis by blast
qed

lemma trim_ends:
  assumes "trim s \<noteq> []"
  shows "\<not> is_ws (hd (trim s)) \<and> \<not> is_ws (last (trim s))"
proof -
  define t where "t = dropWhile is_ws s"
  have tr: "trim s = rev (dropWhile is_ws (rev t))"
    by (simp add: trim_def t_def)
  with assms have ne: "dropWhile is_ws (rev t) \<noteq> []"
    by simp
  then have "\<not> is_ws (hd (dropWhile is_ws (rev t)))"
    by (rule hd_dropWhile)
  with ne tr have l: "\<not> is_ws (last (trim s))"
    by (simp add: last_rev)
  from ne have "t \<noteq> []" by auto
  then have h: "\<not> is_ws (hd t)"
    unfolding t_def by (rule hd_dropWhile)
  have "t = trim s @ rev (takeWhile is_ws (rev t))"
    using rev_dropWhile_takeWhile [of is_ws "rev t"] by (simp add: tr)
  then have "hd t = hd (trim s)"
    using assms by (metis hd_append2)
  with h l show ?thesis by simp
qed

text \<open>
  Claim C4. The description and the stars of a row are the text of their sub-element
  with white space removed at the two ends only: the text is white space, then the field,
  then white space, and a non-empty field neither starts nor ends with white space.
\<close>

theorem description_stars_trimmed:
  "(\<exists>pre post. text_of (find_p_col9 row) = pre @ description (row_record row) @ post
       \<and> (\<forall>c \<in> set pre. is_ws c) \<and> (\<forall>c \<in> set post. is_ws c))
   \<and> (description (row_record row) \<noteq> [] \<longrightarrow>
        \<not> is_ws (hd (description (row_record row))) \<and> \<not> is_ws (last (description (row_record row))))
   \<and> (\<exists>pre post. text_of (find_stargazers row) = pre @ stars (row_record row) @ post
       \<and> (\<forall>c \<in> set pre. is_ws c) \<and> (\<forall>c \<in> set post. is_ws c))
   \<and> (stars (row_record row) \<noteq> [] \<longrightarrow>
        \<not> is_ws (hd (stars (row_record row))) \<and> \<not> is_ws (last (stars (row_record row))))"
  using trim_split [of "text_of (find_p_col9 row)"] trim_ends [of "text_of (find_p_col9 row)"]
    trim_split [of "text_of (find_stargazers row)"] trim_ends [of "text_of (find_stargazers row)"]
  by (simp add: description_of_def stars_of_def)

theorem description_stars_trimmed_witness:
  "text_of (find_p_col9 sample_row) = js ''  A  nice repo  ''
   \<and> description (row_record sample_row) = js ''A  nice repo''
   \<and> text_of (find_stargazers sample_row) = js '' 1,234 ''
   \<and> stars (row_record sample_row) = js ''1,234''
   \<and> \<not> is_ws (hd (description (row_record sample_row)))
   \<and> \<not> is_ws (last (stars (row_record sample_row)))"
proof -
  have d: "text_of (find_p_col9 sample_row) = js ''  A  nice repo  ''"
    by (simp add: sample_rows sample_eval)
  have s: "text_of (find_stargazers sample_row) = js '' 1,234 ''"
    by (simp add: sample_rows sample_eval)
  have d': "description_of sample_row = js ''A  nice repo''"
    by (simp add: description_of_def d) (simp add: trim_def js_def is_ws_def)
  have s': "stars_of sample_row = js ''1,234''"
    by (simp add: stars_of_def s) (simp add: trim_def js_def is_ws_def)
  have ne: "js ''A  nice repo'' \<noteq> []" "js ''1,234'' \<noteq> []"
    by (simp_all add: js_def)
  from description_stars_trimmed [of sample_row] d s d' s' ne show ?thesis
    by simp
qed

lemma emitted_from_row:
  "r \<in> set (extract_repos doc) \<longleftrightarrow>
     (\<exists>row \<in> set (select_rows doc). repoName row \<noteq> [] \<and> r = row_record row)"
  by (auto simp: extract_repos_eq)

lemma emitted_record_url:
  assumes "r \<in> set (extract_repos doc)"
  shows "\<exists>row \<in> set (select_rows doc). repoName row \<noteq> [] \<and> r = row_record row
           \<and> url r = js ''https://github.com''
                         @ template_str (attr (titleElement row) (js ''href''))"
  using assms by (auto simp: emitted_from_row repoUrl_def origin_def)

text \<open>
  Claim C5 says that the url of every emitted record is "https://github.com" followed
  by the href of the row's title link. A title link without an href attribute has
  nothing to append, yet its row is emitted, and the url is then the origin followed by
  the text "undefined": below, the first row of the document has such a link, the
  second one has the href "/foo/bar".
\<close>

theorem url_of_row_without_href:
  "select_rows no_href_doc = [no_href_row, sample_row]
   \<and> attr (titleElement no_href_row) (js ''href'') = None
   \<and> map name (extract_repos no_href_doc) = [js ''foo'', js ''foo/bar'']
   \<and> map url (extract_repos no_href_doc) =
       [js ''https://github.comundefined'', js ''https://github.com/foo/bar'']"
proof -
  have rows: "select_rows no_href_doc = [no_href_row, sample_row]"
    by (simp add: no_href_doc_def sample_rows sample_eval)
  have h: "attr (titleElement no_href_row) (js ''href'') = None"
    by (simp add: sample_rows sample_eval)
  have names: "map name (extract_repos no_href_doc) = [js ''foo'', js ''foo/bar'']"
    by (simp add: extract_repos_def rows) (simp add: sample_rows sample_eval)
  have urls: "map url (extract_repos no_href_doc) =
      [js ''https://github.comundefined'', js ''https://github.com/foo/bar'']"
    by (simp add: extract_repos_def rows) (simp add: sample_rows sample_eval)
  from rows h names urls show ?thesis by simp
qed

text \<open>
  Claim C10. For a row whose title link has a non-empty name and carries no href
  attribute at all, the emitted record has the url "https://github.comundefined", which
  is not the bare origin.
\<close>

theorem url_undefined_without_href:
  assumes "row \<in> set (select_rows doc)"
    and "repoName row \<noteq> []"
    and "titleElement row = a # rest"
    and "attr_of a (js ''href'') = None"
  shows "row_record row \<in> set (extract_repos doc)
         \<and> url (row_record row) = js ''https://github.comundefined''
         \<and> url (row_record row) \<noteq> js ''https://github.com''"
proof -
  have "row_record row \<in> set (extract_repos doc)"
    using assms(1,2) by (auto simp: emitted_from_row)
  moreover have u: "url (row_record row) = js ''https://github.com'' @ js ''undefined''"
    using assms(3,4) by (simp add: repoUrl_def origin_def template_str_def attr_def)
  moreover have "js ''https://github.com'' @ js ''undefined'' = js ''https://github.comundefined''"
    by (simp add: js_def)
  moreover have "js ''https://github.comundefined'' \<noteq> js ''https://github.com''"
    by (simp add: js_def)
  ultimately show ?thesis by simp
qed

theorem url_undefined_without_href_witness:
  "select_rows [no_href_row] = [no_href_row]
   \<and> repoName no_href_row = js ''foo''
   \<and> map url (extract_repos [no_href_row]) = [js ''https://github.comundefined'']"
proof -
  have rows: "select_rows [no_href_row] = [no_href_row]"
    by (simp add: sample_rows sample_eval)
  have mem: "no_href_row \<in> set (select_rows [no_href_row])"
    by (simp add: rows)
  have n: "repoName no_href_row = js ''foo''"
    by (simp add: sample_rows sample_eval)
  then have n': "repoName no_href_row \<noteq> []"
    by (simp add: js_def)
  have t: "titleElement no_href_row =
      Element (js ''a'') [(js ''id'', js ''t'')] [TextNode (js ''foo'')] # []"
    by (simp add: sample_rows sample_eval)
  have h: "attr_of (Element (js ''a'') [(js ''id'', js ''t'')] [TextNode (js ''foo'')]) (js ''href'')
      = None"
    by (simp add: js_def)
  have ex: "extract_repos [no_href_row] = [row_record no_href_row]"
    by (simp add: extract_repos_eq rows n')
  from url_undefined_without_href [OF mem n' t h] rows n ex show ?thesis by simp
qed

subsection \<open>The program\<close>

lemma main_with_language:
  "language \<noteq> [] \<Longrightarrow>
   main e (Some language) =
     (case fetchTrendingRepos e (toLowerCase e language) of
        (events, None) \<Rightarrow> (events, RanToEnd)
      | (events, Some repos) \<Rightarrow> (events @ displayRepos (Some repos), RanToEnd))"
  by (simp add: main_def)

lemma fetch_parsed:
  "axios_get e (trending_url l) = Resolved data \<Longrightarrow> cheerio_load e data = Inr doc \<Longrightarrow>
   fetchTrendingRepos e l =
     ([Stdout (searching_msg l), HttpGet (trending_url l)], Some (extract_repos doc))"
  by (simp add: fetchTrendingRepos_def)

lemma fetch_parser_threw:
  "axios_get e (trending_url l) = Resolved data \<Longrightarrow> cheerio_load e data = Inl message \<Longrightarrow>
   fetchTrendingRepos e l =
     ([Stdout (searching_msg l), HttpGet (trending_url l), Stderr (fetch_failed_msg message)],
      None)"
  by (simp add: fetchTrendingRepos_def catch_block_def)

lemma fetch_rejected:
  "axios_get e (trending_url l) = Rejected status message \<Longrightarrow>
   fetchTrendingRepos e l =
     ([Stdout (searching_msg l), HttpGet (trending_url l),
       Stderr (if status = Some 404 then not_found_msg l else fetch_failed_msg message)],
      None)"
  by (simp add: fetchTrendingRepos_def catch_block_def)

lemma searching_not_nothing_found: "searching_msg l \<noteq> nothing_found_msg"
  by (simp add: searching_msg_def nothing_found_msg_def js_def)

lemma not_found_not_generic: "not_found_msg l \<noteq> fetch_failed_msg m"
  by (simp add: not_found_msg_def fetch_failed_msg_def js_def)

text \<open>
  Claim C6, as stated, fails after a caught fetch error: \<^verbatim>\<open>fetchTrendingRepos\<close>
  returns \<^verbatim>\<open>null\<close>, \<^verbatim>\<open>main\<close> skips \<^verbatim>\<open>displayRepos\<close> under
  \<^verbatim>\<open>if (repos)\<close>, and no "nothing found" line is written.
\<close>

theorem nothing_found_after_fetch_error_counterexample:
  "snd (fetchTrendingRepos (sample_env (Rejected None (js ''timeout'')) (Inr [])) (js ''python''))
     = None
   \<and> main (sample_env (Rejected None (js ''timeout'')) (Inr [])) (Some (js ''python'')) =
       ([Stdout (searching_msg (js ''python'')), HttpGet (trending_url (js ''python'')),
         Stderr (fetch_failed_msg (js ''timeout''))], RanToEnd)
   \<and> Stdout nothing_found_msg
       \<notin> set (fst (main (sample_env (Rejected None (js ''timeout'')) (Inr []))
                   (Some (js ''python''))))"
proof -
  have ne: "js ''python'' \<noteq> []" by (simp add: js_def)
  have rej: "axios_get (sample_env (Rejected None (js ''timeout'')) (Inr []))
       (trending_url (js ''python'')) = Rejected None (js ''timeout'')"
    by (simp add: sample_env_def)
  have lower: "toLowerCase (sample_env (Rejected None (js ''timeout'')) (Inr [])) (js ''python'')
       = js ''python''"
    by (simp add: sample_env_def)
  show ?thesis
    by (simp add: main_with_language [OF ne] lower fetch_rejected [OF rej]
        searching_not_nothing_found [symmetric])
qed

text \<open>
  Claim C6, amended. When the request resolves, the parser builds a tree and zero records
  are extracted, the program writes its start-up line, makes the request, writes the
  "nothing found" line to the output stream and runs to its end. When an error was caught
  (the request was rejected, or the parser threw after the request had resolved),
  \<^verbatim>\<open>fetchTrendingRepos\<close> returns \<^verbatim>\<open>null\<close> and the whole trace of the program is
  the start-up line, the request and the one error line on the error stream (the
  "language not found" line for status 404, the generic line with the error's message
  otherwise); the program runs to its end and writes no "nothing found" line.
\<close>

theorem nothing_found_only_after_successful_fetch:
  assumes "language \<noteq> []" and "l = toLowerCase e language"
  shows "(axios_get e (trending_url l) = Resolved data \<and> cheerio_load e data = Inr doc
            \<and> extract_repos doc = []
            \<longrightarrow> main e (Some language) =
                  ([Stdout (searching_msg l), HttpGet (trending_url l), Stdout nothing_found_msg],
                   RanToEnd))
         \<and> (axios_get e (trending_url l) = Rejected status message
            \<longrightarrow> snd (fetchTrendingRepos e l) = None
                \<and> main e (Some language) =
                    ([Stdout (searching_msg l), HttpGet (trending_url l),
                      Stderr (if status = Some 404 then not_found_msg l
                              else fetch_failed_msg message)],
                     RanToEnd)
                \<and> Stdout nothing_found_msg \<notin> set (fst (main e (Some language))))
         \<and> (axios_get e (trending_url l) = Resolved data \<and> cheerio_load e data = Inl thrown
            \<longrightarrow> snd (fetchTrendingRepos e l) = None
                \<and> main e (Some language) =
                    ([Stdout (searching_msg l), HttpGet (trending_url l),
                      Stderr (fetch_failed_msg thrown)],
                     RanToEnd)
                \<and> Stdout nothing_found_msg \<notin> set (fst (main e (Some language))))"
proof (intro conjI impI)
  assume "axios_get e (trending_url l) = Resolved data \<and> cheerio_load e data = Inr doc
      \<and> extract_repos doc = []"
  then show "main e (Some language) =
      ([Stdout (searching_msg l), HttpGet (trending_url l), Stdout nothing_found_msg], RanToEnd)"
    using assms by (simp add: main_with_language fetch_parsed displayRepos_def)
next
  assume rej: "axios_get e (trending_url l) = Rejected status message"
  then show "snd (fetchTrendingRepos e l) = None"
    by (simp add: fetch_rejected)
  from rej show "main e (Some language) =
      ([Stdout (searching_msg l), HttpGet (trending_url l),
        Stderr (if status = Some 404 then not_found_msg l else fetch_failed_msg message)],
       RanToEnd)"
    using assms by (simp add: main_with_language fetch_rejected)
  from rej show "Stdout nothing_found_msg \<notin> set (fst (main e (Some language)))"
    using assms
    by (simp add: main_with_language fetch_rejected searching_not_nothing_found [symmetric])
next
  assume thr: "axios_get e (trending_url l) = Resolved data \<and> cheerio_load e data = Inl thrown"
  then show "snd (fetchTrendingRepos e l) = None"
    by (simp add: fetch_parser_threw)
  from thr show "main e (Some language) =
      ([Stdout (searching_msg l), HttpGet (trending_url l), Stderr (fetch_failed_msg thrown)],
       RanToEnd)"
    using assms by (simp add: main_with_language fetch_parser_threw)
  from thr show "Stdout nothing_found_msg \<notin> set (fst (main e (Some language)))"
    using assms
    by (simp add: main_with_language fetch_parser_threw searching_not_nothing_found [symmetric])
qed

theorem nothing_found_only_after_successful_fetch_witness:
  "main (sample_env (Resolved (StringData (js ''<html></html>''))) (Inr [])) (Some (js ''python'')) =
     ([Stdout (searching_msg (js ''python'')), HttpGet (trending_url (js ''python'')),
       Stdout nothing_found_msg], RanToEnd)
   \<and> main (sample_env (Rejected (Some 500) (js ''Request failed'')) (Inr []))
         (Some (js ''python'')) =
     ([Stdout (searching_msg (js ''python'')), HttpGet (trending_url (js ''python'')),
       Stderr (fetch_failed_msg (js ''Request failed''))], RanToEnd)
   \<and> main (sample_env (Resolved OtherData) (Inl (js ''expects a string''))) (Some (js ''python'')) =
     ([Stdout (searching_msg (js ''python'')), HttpGet (trending_url (js ''python'')),
       Stderr (fetch_failed_msg (js ''expects a string''))], RanToEnd)"
proof -
  have ne: "js ''python'' \<noteq> []" by (simp add: js_def)
  have l1: "js ''python'' =
      toLowerCase (sample_env (Resolved (StringData (js ''<html></html>''))) (Inr [])) (js ''python'')"
    by (simp add: sample_env_def)
  have l2: "js ''python'' =
      toLowerCase (sample_env (Rejected (Some 500) (js ''Request failed'')) (Inr [])) (js ''python'')"
    by (simp add: sample_env_def)
  have l3: "js ''python'' =
      toLowerCase (sample_env (Resolved OtherData) (Inl (js ''expects a string''))) (js ''python'')"
    by (simp add: sample_env_def)
  have a1: "axios_get (sample_env (Resolved (StringData (js ''<html></html>''))) (Inr []))
        (trending_url (js ''python'')) = Resolved (StringData (js ''<html></html>''))
      \<and> cheerio_load (sample_env (Resolved (StringData (js ''<html></html>''))) (Inr []))
            (StringData (js ''<html></html>'')) = Inr []
      \<and> extract_repos [] = []"
    by (simp add: sample_env_def extract_repos_def select_rows_def document_nodes_def)
  have a2: "axios_get (sample_env (Rejected (Some 500) (js ''Request failed'')) (Inr []))
      (trending_url (js ''python'')) = Rejected (Some 500) (js ''Request failed'')"
    by (simp add: sample_env_def)
  have a3: "axios_get (sample_env (Resolved OtherData) (Inl (js ''expects a string'')))
        (trending_url (js ''python'')) = Resolved OtherData
      \<and> cheerio_load (sample_env (Resolved OtherData) (Inl (js ''expects a string''))) OtherData
          = Inl (js ''expects a string'')"
    by (simp add: sample_env_def)
  have c: "(Some (500::nat) = Some 404) = False" by simp
  from nothing_found_only_after_successful_fetch
         [OF ne l1, where data = "StringData (js ''<html></html>'')" and doc = "[]"] a1
  have r1: "main (sample_env (Resolved (StringData (js ''<html></html>''))) (Inr []))
      (Some (js ''python'')) =
     ([Stdout (searching_msg (js ''python'')), HttpGet (trending_url (js ''python'')),
       Stdout nothing_found_msg], RanToEnd)"
    by blast
  from nothing_found_only_after_successful_fetch
         [OF ne l2, where status = "Some 500" and message = "js ''Request failed''"] a2
  have r2: "main (sample_env (Rejected (Some 500) (js ''Request failed'')) (Inr []))
         (Some (js ''python'')) =
     ([Stdout (searching_msg (js ''python'')), HttpGet (trending_url (js ''python'')),
       Stderr (if Some (500::nat) = Some 404 then not_found_msg (js ''python'')
               else fetch_failed_msg (js ''Request failed''))], RanToEnd)"
    by blast
  from nothing_found_only_after_successful_fetch
         [OF ne l3, where data = OtherData and thrown = "js ''expects a string''"] a3
  have r3: "main (sample_env (Resolved OtherData) (Inl (js ''expects a string'')))
      (Some (js ''python'')) =
     ([Stdout (searching_msg (js ''python'')), HttpGet (trending_url (js ''python'')),
       Stderr (fetch_failed_msg (js ''expects a string''))], RanToEnd)"
    by blast
  from r1 r2 r3 show ?thesis by (simp only: c if_False simp_thms)
qed

text \<open>
  Claim C7. When the request is rejected with a response of status 404, the program
  writes the "language not found" message to the error stream, which differs from every
  generic fetch-failure message, writes no repository list and runs to its end.
\<close>

theorem language_not_found_on_404:
  assumes "language \<noteq> []" and "l = toLowerCase e language"
    and "axios_get e (trending_url l) = Rejected (Some 404) message"
  shows "main e (Some language) =
           ([Stdout (searching_msg l), HttpGet (trending_url l), Stderr (not_found_msg l)],
            RanToEnd)
         \<and> not_found_msg l \<noteq> fetch_failed_msg m"
  using assms by (simp add: main_with_language fetch_rejected not_found_not_generic)

theorem language_not_found_on_404_witness:
  "main (sample_env (Rejected (Some 404) (js ''Request failed with status code 404'')) (Inr []))
       (Some (js ''doesnotexist123'')) =
     ([Stdout (searching_msg (js ''doesnotexist123'')),
       HttpGet (js ''https://github.com/trending/doesnotexist123''),
       Stderr (not_found_msg (js ''doesnotexist123''))], RanToEnd)"
proof -
  have ne: "js ''doesnotexist123'' \<noteq> []" by (simp add: js_def)
  have l: "js ''doesnotexist123'' =
      toLowerCase (sample_env (Rejected (Some 404) (js ''Request failed with status code 404'')) (Inr []))
        (js ''doesnotexist123'')"
    by (simp add: sample_env_def)
  have a: "axios_get (sample_env (Rejected (Some 404) (js ''Request failed with status code 404'')) (Inr []))
      (trending_url (js ''doesnotexist123'')) =
      Rejected (Some 404) (js ''Request failed with status code 404'')"
    by (simp add: sample_env_def)
  have u: "trending_url (js ''doesnotexist123'') = js ''https://github.com/trending/doesnotexist123''"
    by (simp add: trending_url_def js_def)
  from language_not_found_on_404 [OF ne l a] u show ?thesis by simp
qed

text \<open>
  Claim C8. Without a language argument the program writes the usage error to the error
  stream, the usage hint to the output stream, and exits with status code 1; no request
  is made.
\<close>

theorem missing_argument_usage_exit:
  "main e None = ([Stderr usage_error_msg, Stdout usage_hint_msg], ProcessExit 1)
   \<and> HttpGet u \<notin> set (fst (main e None))"
  by (simp add: main_def usage_exit_def)

end
